theory Spec2Isabelle
  imports Complex_Main
begin

section \<open>Strategy state machine\<close>

text \<open>
  The enum \<open>StrategyState\<close> of the state-machine module: nine members, in the order
  of the source. There is no member for a cancelled execution.
\<close>

datatype StrategyState =
    IDLE
  | ANALYZING
  | PLANNING
  | AWAITING_APPROVAL
  | EXECUTING
  | MONITORING
  | COMPLETED
  | FAILED
  | PAUSED

text \<open>
  The class attribute \<open>TRANSITIONS\<close>, a dictionary from a state to the list of states
  it may move to. The dictionary has an entry for every member of the enum, so the lookup
  \<open>self.TRANSITIONS[self.current_state]\<close> never raises and the table is a total function.
\<close>

fun TRANSITIONS :: "StrategyState \<Rightarrow> StrategyState list" where
  "TRANSITIONS IDLE = [ANALYZING]"
| "TRANSITIONS ANALYZING = [PLANNING, FAILED]"
| "TRANSITIONS PLANNING = [AWAITING_APPROVAL, EXECUTING]"
| "TRANSITIONS AWAITING_APPROVAL = [EXECUTING, PAUSED]"
| "TRANSITIONS EXECUTING = [MONITORING, FAILED]"
| "TRANSITIONS MONITORING = [COMPLETED, FAILED]"
| "TRANSITIONS PAUSED = [ANALYZING, IDLE]"
| "TRANSITIONS FAILED = [IDLE]"
| "TRANSITIONS COMPLETED = [IDLE]"

text \<open>
  A \<open>StateTransition\<close> is the history record built by \<open>transition_to\<close>. The context
  is an optional dictionary (\<open>context: Dict = None\<close>) and the timestamp is the reading
  of the clock (\<open>datetime.utcnow()\<close>); both are kept abstract. The field
  \<open>context\<close> is named \<open>transition_context\<close>, \<open>context\<close> being a keyword.
\<close>

record ('c, 't) StateTransition =
  from_state :: StrategyState
  to_state :: StrategyState
  transition_context :: "'c option"
  timestamp :: 't

text \<open>The fields set by the constructor of \<open>StrategyStateMachine\<close>.\<close>

record ('c, 't) StrategyStateMachine =
  strategy_id :: string
  current_state :: StrategyState
  state_history :: "('c, 't) StateTransition list"

definition init_machine ::
  "string \<Rightarrow> StrategyState \<Rightarrow> ('c, 't) StrategyStateMachine" where
  "init_machine sid initial_state =
     \<lparr>strategy_id = sid, current_state = initial_state, state_history = []\<rparr>"

text \<open>
  What a call of \<open>transition_to\<close> raises: \<open>InvalidTransitionError\<close> (its message names
  the current and the requested state), or whatever one of the two awaited helpers raises.
\<close>

datatype 'e transition_error =
    InvalidTransitionError StrategyState StrategyState
  | PersistFailed 'e
  | EmitFailed 'e

text \<open>
  The outcome of one call: the value returned or the exception raised, the machine as the
  call leaves it, the durable store as the call leaves it, and the notifications emitted.
  An exception does not undo assignments made before it, so the machine is part of the
  outcome also when the call raises.
\<close>

record ('c, 't, 'e, 'w) transition_outcome =
  raised :: "'e transition_error option"
  machine :: "('c, 't) StrategyStateMachine"
  store :: 'w
  emitted :: "('c, 't) StateTransition list"

text \<open>
  \<open>transition_to\<close>. The helpers \<open>persist_state\<close> and \<open>emit_state_change_event\<close> are
  methods whose bodies the module does not give; they are parameters here.
  \<open>persist_state m w\<close> receives the machine and the durable store and yields the
  exception it raises, if any, with the store it leaves;
  \<open>emit_state_change_event tr\<close> yields the exception it raises, if any. The statements
  of the source are kept in their order: the membership test, the construction of the
  record, the append, the assignment of \<open>current_state\<close>, then persist, then emit.
\<close>

definition transition_to ::
  "(('c, 't) StrategyStateMachine \<Rightarrow> 'w \<Rightarrow> 'e option \<times> 'w) \<Rightarrow>
   (('c, 't) StateTransition \<Rightarrow> 'e option) \<Rightarrow> 't \<Rightarrow>
   ('c, 't) StrategyStateMachine \<Rightarrow> 'w \<Rightarrow> StrategyState \<Rightarrow> 'c option \<Rightarrow>
   ('c, 't, 'e, 'w) transition_outcome" where
  "transition_to persist_state emit_state_change_event utcnow self w new_state ctx =
     (if new_state \<notin> set (TRANSITIONS (current_state self)) then
        \<lparr>raised = Some (InvalidTransitionError (current_state self) new_state),
         machine = self, store = w, emitted = []\<rparr>
      else
        let transition = \<lparr>from_state = current_state self, to_state = new_state,
                           transition_context = ctx, timestamp = utcnow\<rparr>;
            self1 = self\<lparr>state_history := state_history self @ [transition]\<rparr>;
            self2 = self1\<lparr>current_state := new_state\<rparr>
        in case persist_state self2 w of
             (Some e, w') \<Rightarrow>
               \<lparr>raised = Some (PersistFailed e), machine = self2, store = w', emitted = []\<rparr>
           | (None, w') \<Rightarrow>
               (case emit_state_change_event transition of
                  Some e \<Rightarrow>
                    \<lparr>raised = Some (EmitFailed e), machine = self2, store = w',
                     emitted = []\<rparr>
                | None \<Rightarrow>
                    \<lparr>raised = None, machine = self2, store = w',
                     emitted = [transition]\<rparr>))"

text \<open>
  Two instances of the persistence helper, for concrete runs: a store that keeps the last
  machine written to it, and a store that is out of reach, where every write raises and
  nothing is written.
\<close>

definition persist_ok ::
  "('c, 't) StrategyStateMachine \<Rightarrow> ('c, 't) StrategyStateMachine \<Rightarrow>
   string option \<times> ('c, 't) StrategyStateMachine" where
  "persist_ok m w = (None, m)"

definition persist_unreachable ::
  "('c, 't) StrategyStateMachine \<Rightarrow> ('c, 't) StrategyStateMachine \<Rightarrow>
   string option \<times> ('c, 't) StrategyStateMachine" where
  "persist_unreachable m w = (Some ''store unreachable'', w)"

definition emit_ok :: "('c, 't) StateTransition \<Rightarrow> string option" where
  "emit_ok tr = None"

text \<open>
  Two machines for concrete runs: one that waits for approval after planning, and the same
  one after the approval, in \<open>executing\<close>.
\<close>

definition awaiting_machine :: "(string, int) StrategyStateMachine" where
  "awaiting_machine =
     \<lparr>strategy_id = ''dca-weekly'', current_state = AWAITING_APPROVAL,
      state_history =
        [\<lparr>from_state = PLANNING, to_state = AWAITING_APPROVAL,
          transition_context = None, timestamp = 90\<rparr>]\<rparr>"

definition executing_machine :: "(string, int) StrategyStateMachine" where
  "executing_machine =
     \<lparr>strategy_id = ''dca-weekly'', current_state = EXECUTING,
      state_history =
        [\<lparr>from_state = PLANNING, to_state = AWAITING_APPROVAL,
          transition_context = None, timestamp = 90\<rparr>,
         \<lparr>from_state = AWAITING_APPROVAL, to_state = EXECUTING,
          transition_context = Some ''approved'', timestamp = 100\<rparr>]\<rparr>"

section \<open>Policy engine\<close>

text \<open>
  Modelled from the spec: the policy engine and its three evaluators. The module under
  study holds the risk checks only; the engine that composes the System, Session and Risk
  policies (\<open>app/core/policy/engine.py\<close> in the document's own notes) is not part of it.
  The spec gives the contract: \<open>evaluate(ActionContext) -> PolicyResult\<close> evaluates the
  System Policy, then the Session Policy, then the Risk Policy, in that fixed order, and
  stops at a block-severity violation; the evaluators that follow are skipped and their
  absence is recorded. The evaluators are pure functions of the action context, an ordered
  list of one evaluator interface, each appending tagged violations. The result is approved
  when no violation across the evaluators has block severity.
\<close>

datatype PolicyType = SystemPolicy | SessionPolicy | RiskPolicy

datatype Severity = Warn | Block

record PolicyViolation =
  policy_type :: PolicyType
  severity :: Severity
  message :: string

text \<open>
  Modelled from the spec: an evaluator returns its findings for an action context, each a
  severity with a message. The bodies of the three evaluators are not specified beyond
  what they inspect, so they are parameters. For the System Policy "any hit is
  unconditionally block-severity": its evaluator returns the hits, and the engine gives
  each of them block severity.
\<close>

type_synonym 'a evaluator = "'a \<Rightarrow> (Severity \<times> string) list"

definition system_evaluator :: "('a \<Rightarrow> string list) \<Rightarrow> 'a evaluator" where
  "system_evaluator hits a = map (\<lambda>m. (Block, m)) (hits a)"

definition tag :: "PolicyType \<Rightarrow> Severity \<times> string \<Rightarrow> PolicyViolation" where
  "tag p f = \<lparr>policy_type = p, severity = fst f, message = snd f\<rparr>"

definition is_block :: "PolicyViolation \<Rightarrow> bool" where
  "is_block v = (severity v = Block)"

text \<open>
  Modelled from the spec: the verdict. It holds the approval, the ordered list of
  violations, and the record of which evaluators ran and which were skipped. The risk
  score and the manual-approval flag of the spec's \<open>PolicyResult\<close> come from the Risk
  evaluator alone and have no part in the order of evaluation; they are left out.
\<close>

record PolicyResult =
  approved :: bool
  violations :: "PolicyViolation list"
  evaluated :: "PolicyType list"
  skipped :: "PolicyType list"

text \<open>
  Modelled from the spec: the evaluators are run in the order of the list. An evaluator's
  findings are tagged with its policy type and appended. After an evaluator that reports a
  block-severity violation none of the remaining ones is applied; their types are
  recorded as skipped.
\<close>

fun run_evaluators ::
  "(PolicyType \<times> 'a evaluator) list \<Rightarrow> 'a \<Rightarrow>
   PolicyViolation list \<times> PolicyType list \<times> PolicyType list" where
  "run_evaluators [] a = ([], [], [])"
| "run_evaluators ((p, ev) # rest) a =
     (let vs = map (tag p) (ev a)
      in if list_ex is_block vs then (vs, [p], map fst rest)
         else (let (vs', ran, skp) = run_evaluators rest a
               in (vs @ vs', p # ran, skp)))"

definition PolicyEngine_evaluate ::
  "('a \<Rightarrow> string list) \<Rightarrow> 'a evaluator \<Rightarrow> 'a evaluator \<Rightarrow> 'a \<Rightarrow> PolicyResult" where
  "PolicyEngine_evaluate system_hits session_policy risk_policy a =
     (let (vs, ran, skp) =
            run_evaluators
              [(SystemPolicy, system_evaluator system_hits),
               (SessionPolicy, session_policy),
               (RiskPolicy, risk_policy)] a
      in \<lparr>approved = \<not> list_ex is_block vs, violations = vs, evaluated = ran,
          skipped = skp\<rparr>)"

text \<open>
  Evaluators for a concrete run: the platform's emergency stop is set, the session
  credential has expired, and the slippage is above the user's warning threshold.
\<close>

definition emergency_stop :: "unit \<Rightarrow> string list" where
  "emergency_stop a = [''emergency stop'']"

definition expired_session :: "unit evaluator" where
  "expired_session a = [(Block, ''session expired'')]"

definition slippage_warning :: "unit evaluator" where
  "slippage_warning a = [(Warn, ''slippage above warning threshold'')]"

section \<open>Floating-point arithmetic\<close>

text \<open>
  The risk score is computed with Python floats, which are IEEE 754 binary64 numbers. A
  float is modelled by the real number it stands for, and an operation on floats by the
  exact operation followed by \<open>f64\<close>, the rounding to the nearest binary64 number with
  ties going to the even significand. Infinities and NaN are outside the model: a real of
  magnitude \<open>2 ^ 1024\<close> or more, which the hardware rounds to infinity, is not a value any
  computation below reaches.
\<close>

definition round_half_even :: "real \<Rightarrow> int" where
  "round_half_even x =
     (let n = \<lfloor>x\<rfloor>; d = x - of_int n
      in if d < 1 / 2 then n
         else if 1 / 2 < d then n + 1
         else if even n then n else n + 1)"

text \<open>
  The binade of a magnitude \<open>x\<close> is the exponent \<open>k\<close> with \<open>2 ^ k \<le> x < 2 ^ (k + 1)\<close>,
  kept within the exponents of normal numbers, \<open>- 1022\<close> to \<open>1023\<close>; below \<open>2 ^ - 1022\<close>
  (the subnormal numbers) it is \<open>- 1022\<close>. \<open>find_binade n x\<close> searches downward from
  \<open>n - 1022\<close>.
\<close>

fun find_binade :: "nat \<Rightarrow> real \<Rightarrow> int" where
  "find_binade 0 x = - 1022"
| "find_binade (Suc n) x =
     (if 2 powi (int (Suc n) - 1022) \<le> x then int (Suc n) - 1022 else find_binade n x)"

definition binade :: "real \<Rightarrow> int" where
  "binade x = find_binade 2045 \<bar>x\<bar>"

text \<open>
  A binary64 number has a significand of 53 bits, so in the binade \<open>k\<close> the representable
  numbers are the multiples of \<open>2 ^ (k - 52)\<close>.
\<close>

definition f64 :: "real \<Rightarrow> real" where
  "f64 x = (let e = binade x - 52 in of_int (round_half_even (x / 2 powi e)) * 2 powi e)"

section \<open>Risk engine\<close>

text \<open>
  A \<open>CheckResult\<close> is what one check returns. Its class is not part of the module; the
  fields are the two that \<open>calculate_risk_score\<close> reads. The contribution is a float.
\<close>

record CheckResult =
  check_name :: string
  risk_contribution :: real

text \<open>
  The dictionary \<open>weights\<close> of \<open>calculate_risk_score\<close>, in the order it is written.
  Each decimal literal denotes the binary64 number nearest to it. The lookup
  \<open>weights.get(r.check_name, 0.1)\<close> has the literal \<open>0.1\<close> as its default.
\<close>

definition weights :: "(string \<times> real) list" where
  "weights =
     [(''position_limit'', f64 0.2),
      (''daily_loss'', f64 0.25),
      (''concentration'', f64 0.15),
      (''slippage'', f64 0.15),
      (''gas_cost'', f64 0.1),
      (''contract_risk'', f64 0.15)]"

definition weights_get :: "string \<Rightarrow> real" where
  "weights_get k = (case map_of weights k of Some w \<Rightarrow> w | None \<Rightarrow> f64 0.1)"

text \<open>
  \<open>calculate_risk_score\<close>. The generator yields one float product per result, and
  \<open>sum\<close> adds them from left to right, starting from the integer \<open>0\<close>, one float addition
  and so one rounding per result. (This is the plain summation of CPython up to 3.11; from
  3.12 on, \<open>sum\<close> carries a correction term for floats, which is not modelled.)
  \<open>add_contribution s r\<close> is the running total after the result \<open>r\<close> is added to the
  total \<open>s\<close>.
\<close>

definition add_contribution :: "real \<Rightarrow> CheckResult \<Rightarrow> real" where
  "add_contribution s r = f64 (s + f64 (risk_contribution r * weights_get (check_name r)))"

definition calculate_risk_score :: "CheckResult list \<Rightarrow> real" where
  "calculate_risk_score results = foldl add_contribution 0 results"

text \<open>
  Results for concrete runs: the six configured checks, each with the contribution 1, in
  the order of the list \<open>self.checks\<close> of the engine, and the same six in another order.
\<close>

definition check_result :: "string \<Rightarrow> real \<Rightarrow> CheckResult" where
  "check_result n c = \<lparr>check_name = n, risk_contribution = c\<rparr>"

definition all_at_one :: "CheckResult list" where
  "all_at_one =
     [check_result ''position_limit'' 1,
      check_result ''daily_loss'' 1,
      check_result ''concentration'' 1,
      check_result ''slippage'' 1,
      check_result ''gas_cost'' 1,
      check_result ''contract_risk'' 1]"


section \<open>Error recovery\<close>

text \<open>
  What one call of \<open>self.execute(action)\<close> does: it returns a result, or raises a
  \<open>RecoverableError\<close>, an \<open>UnrecoverableError\<close>, or an exception of neither class,
  which no \<open>except\<close> clause of \<open>execute_with_recovery\<close> catches.
\<close>

datatype ('r, 'e) execute_outcome =
    Returns 'r
  | RaisesRecoverable 'e
  | RaisesUnrecoverable 'e
  | RaisesOther 'e

text \<open>What a run does, in order: the calls it makes.\<close>

datatype 'e recovery_event =
    Execute nat
  | HandleRetry nat 'e
  | EscalateToHuman 'e
  | TryFallbackStrategies

datatype ('r, 'e) recovery_result =
    Returned 'r
  | ReturnedNone
  | Raised 'e

text \<open>
  The helpers \<open>execute\<close>, \<open>handle_retry\<close>, \<open>escalate_to_human\<close> and
  \<open>try_fallback_strategies\<close> have no body in the module and are parameters.
  \<open>execute k\<close> is the outcome of the call made in attempt \<open>k\<close>; each of the other
  three yields the exception it raises, if any.
\<close>

record ('r, 'e) recovery_helpers =
  execute :: "nat \<Rightarrow> ('r, 'e) execute_outcome"
  handle_retry :: "nat \<Rightarrow> 'e \<Rightarrow> 'e option"
  escalate_to_human :: "'e \<Rightarrow> 'e option"
  try_fallback_strategies :: "'e option"

text \<open>
  The loop \<open>for attempt in range(self.max_retries)\<close>: \<open>retry_loop h n attempt\<close> runs
  the \<open>n\<close> iterations that start at \<open>attempt\<close>. It yields the events and, when the
  loop is left by \<open>return\<close> or by an exception, the result; \<open>None\<close> means the loop
  ran to its end. Neither \<open>except\<close> clause leaves the loop: after the handler returns,
  the next iteration starts.
\<close>

fun retry_loop ::
  "('r, 'e) recovery_helpers \<Rightarrow> nat \<Rightarrow> nat \<Rightarrow>
   'e recovery_event list \<times> ('r, 'e) recovery_result option" where
  "retry_loop h 0 attempt = ([], None)"
| "retry_loop h (Suc n) attempt =
     (case execute h attempt of
        Returns r \<Rightarrow> ([Execute attempt], Some (Returned r))
      | RaisesOther e \<Rightarrow> ([Execute attempt], Some (Raised e))
      | RaisesRecoverable e \<Rightarrow>
          (case handle_retry h attempt e of
             Some x \<Rightarrow> ([Execute attempt, HandleRetry attempt e], Some (Raised x))
           | None \<Rightarrow>
               (let (evs, res) = retry_loop h n (Suc attempt)
                in (Execute attempt # HandleRetry attempt e # evs, res)))
      | RaisesUnrecoverable e \<Rightarrow>
          (case escalate_to_human h e of
             Some x \<Rightarrow> ([Execute attempt, EscalateToHuman e], Some (Raised x))
           | None \<Rightarrow>
               (let (evs, res) = retry_loop h n (Suc attempt)
                in (Execute attempt # EscalateToHuman e # evs, res))))"

text \<open>
  \<open>execute_with_recovery\<close>: the loop over \<open>range(max_retries)\<close> (empty when
  \<open>max_retries\<close> is not positive), then the fallback, then the implicit \<open>return None\<close>.
\<close>

definition execute_with_recovery ::
  "('r, 'e) recovery_helpers \<Rightarrow> int \<Rightarrow>
   'e recovery_event list \<times> ('r, 'e) recovery_result" where
  "execute_with_recovery h max_retries =
     (case retry_loop h (nat max_retries) 0 of
        (evs, Some res) \<Rightarrow> (evs, res)
      | (evs, None) \<Rightarrow>
          (case try_fallback_strategies h of
             Some x \<Rightarrow> (evs @ [TryFallbackStrategies], Raised x)
           | None \<Rightarrow> (evs @ [TryFallbackStrategies], ReturnedNone)))"

text \<open>The number of times a run invokes the wrapped operation.\<close>

fun is_execute :: "'e recovery_event \<Rightarrow> bool" where
  "is_execute (Execute k) = True"
| "is_execute ev = False"

definition executions :: "'e recovery_event list \<Rightarrow> nat" where
  "executions evs = length (filter is_execute evs)"

text \<open>
  Helpers for a concrete run: the operation fails with an unrecoverable error on every
  call, and the handlers return normally. The default of the class is \<open>max_retries = 3\<close>.
\<close>

definition always_unrecoverable :: "(unit, string) recovery_helpers" where
  "always_unrecoverable =
     \<lparr>execute = (\<lambda>k. RaisesUnrecoverable ''insufficient funds''),
      handle_retry = (\<lambda>k e. None),
      escalate_to_human = (\<lambda>e. None),
      try_fallback_strategies = None\<rparr>"

section \<open>Circuit breaker\<close>

datatype CircuitState = CLOSED | OPEN | HALF_OPEN

text \<open>
  The fields set by the constructor of \<open>CircuitBreaker\<close>. Thresholds and counters are
  Python integers; the clock reading is kept abstract, and \<open>last_failure_time\<close> is
  \<open>None\<close> until the first failure.
\<close>

record 't CircuitBreaker =
  name :: string
  failure_threshold :: int
  success_threshold :: int
  timeout_seconds :: int
  state :: CircuitState
  failure_count :: int
  success_count :: int
  last_failure_time :: "'t option"

definition init_breaker :: "string \<Rightarrow> int \<Rightarrow> int \<Rightarrow> int \<Rightarrow> 't CircuitBreaker" where
  "init_breaker n ft st ts =
     \<lparr>name = n, failure_threshold = ft, success_threshold = st, timeout_seconds = ts,
      state = CLOSED, failure_count = 0, success_count = 0, last_failure_time = None\<rparr>"

text \<open>
  \<open>record_success\<close>. The method \<open>reset_counts\<close> it calls has no body in the module
  and is a parameter.
\<close>

definition record_success ::
  "('t CircuitBreaker \<Rightarrow> 't CircuitBreaker) \<Rightarrow> 't CircuitBreaker \<Rightarrow> 't CircuitBreaker" where
  "record_success reset_counts self =
     (if state self = HALF_OPEN then
        let self1 = self\<lparr>success_count := success_count self + 1\<rparr>
        in if success_count self1 \<ge> success_threshold self1
           then reset_counts (self1\<lparr>state := CLOSED\<rparr>)
           else self1
      else self\<lparr>failure_count := 0\<rparr>)"

text \<open>\<open>record_failure\<close>; \<open>utcnow\<close> is the reading of the clock it takes.\<close>

definition record_failure :: "'t \<Rightarrow> 't CircuitBreaker \<Rightarrow> 't CircuitBreaker" where
  "record_failure utcnow self =
     (let self1 = self\<lparr>failure_count := failure_count self + 1\<rparr>;
          self2 = self1\<lparr>last_failure_time := Some utcnow\<rparr>
      in if failure_count self2 \<ge> failure_threshold self2
         then self2\<lparr>state := OPEN\<rparr>
         else self2)"

text \<open>
  What the wrapped function does when it is awaited: it returns a value, raises an
  \<open>Exception\<close>, or raises an exception outside \<open>Exception\<close> (a cancellation, say),
  which the clause \<open>except Exception\<close> does not catch.
\<close>

datatype ('v, 'e) func_outcome =
    FuncReturns 'v
  | FuncRaises 'e
  | FuncRaisesBase 'e

datatype ('v, 'e) call_result =
    CallReturned 'v
  | CircuitOpenError string
  | CallRaised 'e

text \<open>
  The outcome of one \<open>call\<close>: its result, whether the wrapped function was invoked, and
  the breaker as the call leaves it.
\<close>

record ('v, 'e, 't) call_outcome =
  result :: "('v, 'e) call_result"
  invoked :: bool
  breaker :: "'t CircuitBreaker"

text \<open>
  \<open>call\<close>. The method \<open>should_attempt_reset\<close> has no body in the module and is a
  parameter: it receives the breaker and the clock reading at the gate. \<open>t_gate\<close> is that
  reading and \<open>t_fail\<close> the one \<open>record_failure\<close> takes if the function raises.
\<close>

definition call ::
  "('t CircuitBreaker \<Rightarrow> 't \<Rightarrow> bool) \<Rightarrow> ('t CircuitBreaker \<Rightarrow> 't CircuitBreaker) \<Rightarrow>
   't CircuitBreaker \<Rightarrow> 't \<Rightarrow> 't \<Rightarrow> ('v, 'e) func_outcome \<Rightarrow> ('v, 'e, 't) call_outcome" where
  "call should_attempt_reset reset_counts self t_gate t_fail func =
     (if state self = OPEN \<and> \<not> should_attempt_reset self t_gate then
        \<lparr>result = CircuitOpenError (name self), invoked = False, breaker = self\<rparr>
      else
        let self1 = (if state self = OPEN then self\<lparr>state := HALF_OPEN\<rparr> else self)
        in case func of
             FuncReturns v \<Rightarrow>
               \<lparr>result = CallReturned v, invoked = True,
                breaker = record_success reset_counts self1\<rparr>
           | FuncRaises e \<Rightarrow>
               \<lparr>result = CallRaised e, invoked = True,
                breaker = record_failure t_fail self1\<rparr>
           | FuncRaisesBase e \<Rightarrow>
               \<lparr>result = CallRaised e, invoked = True, breaker = self1\<rparr>)"

text \<open>
  A sequence of calls on one breaker, the caller going on after each exception. Each
  element is the clock reading at the gate, the reading at a failure, and what the
  function does if it is invoked. \<open>run_calls\<close> gives the breaker after the sequence,
  \<open>invocations\<close> the number of times the function was invoked.
\<close>

fun run_calls ::
  "('t CircuitBreaker \<Rightarrow> 't \<Rightarrow> bool) \<Rightarrow> ('t CircuitBreaker \<Rightarrow> 't CircuitBreaker) \<Rightarrow>
   't CircuitBreaker \<Rightarrow> ('t \<times> 't \<times> ('v, 'e) func_outcome) list \<Rightarrow> 't CircuitBreaker" where
  "run_calls sar rc self [] = self"
| "run_calls sar rc self ((t_gate, t_fail, func) # cs) =
     run_calls sar rc (breaker (call sar rc self t_gate t_fail func)) cs"

fun invocations ::
  "('t CircuitBreaker \<Rightarrow> 't \<Rightarrow> bool) \<Rightarrow> ('t CircuitBreaker \<Rightarrow> 't CircuitBreaker) \<Rightarrow>
   't CircuitBreaker \<Rightarrow> ('t \<times> 't \<times> ('v, 'e) func_outcome) list \<Rightarrow> nat" where
  "invocations sar rc self [] = 0"
| "invocations sar rc self ((t_gate, t_fail, func) # cs) =
     (let out = call sar rc self t_gate t_fail func
      in (if invoked out then 1 else 0) + invocations sar rc (breaker out) cs)"

text \<open>A failed call: the function is invoked and raises an \<open>Exception\<close>.\<close>

fun is_failure :: "'t \<times> 't \<times> ('v, 'e) func_outcome \<Rightarrow> bool" where
  "is_failure (t_gate, t_fail, FuncRaises e) = True"
| "is_failure c = False"

text \<open>
  Modelled from the spec: \<open>should_attempt_reset\<close>, which the module calls and does not
  define. The spec has an open breaker reject calls "for \<open>timeout_seconds\<close>" and then
  allow a probe: the reset is attempted once \<open>timeout_seconds\<close> have passed since the last
  failure. The clock counts whole seconds here.
\<close>

definition should_attempt_reset :: "int CircuitBreaker \<Rightarrow> int \<Rightarrow> bool" where
  "should_attempt_reset self utcnow =
     (case last_failure_time self of
        None \<Rightarrow> False
      | Some t \<Rightarrow> utcnow - t \<ge> timeout_seconds self)"

text \<open>
  Modelled from the spec: \<open>reset_counts\<close>, which the module calls and does not define.
  The spec's breaker holds "consecutive failure/success counters"; resetting the counts
  sets both to zero.
\<close>

definition reset_counts :: "'t CircuitBreaker \<Rightarrow> 't CircuitBreaker" where
  "reset_counts self = self\<lparr>failure_count := 0, success_count := 0\<rparr>"

text \<open>
  The breaker of the module's usage example, \<open>CircuitBreaker("alchemy",
  failure_threshold=5)\<close>, with the defaults \<open>success_threshold = 3\<close> and
  \<open>timeout_seconds = 60\<close>.
\<close>

definition alchemy_circuit :: "int CircuitBreaker" where
  "alchemy_circuit = init_breaker ''alchemy'' 5 3 60"

text \<open>A call at clock reading \<open>t\<close> whose function raises, and one whose function returns.\<close>

definition fails_at :: "int \<Rightarrow> int \<times> int \<times> (unit, string) func_outcome" where
  "fails_at t = (t, t, FuncRaises ''rpc error'')"

definition succeeds_at :: "int \<Rightarrow> int \<times> int \<times> (unit, string) func_outcome" where
  "succeeds_at t = (t, t, FuncReturns ())"

text \<open>
  That breaker after five failures in a row, the last at clock reading 4: open, with five
  failures counted.
\<close>

definition opened_alchemy_circuit :: "int CircuitBreaker" where
  "opened_alchemy_circuit =
     alchemy_circuit\<lparr>state := OPEN, failure_count := 5, last_failure_time := Some 4\<rparr>"

section \<open>Properties of the state machine\<close>

text \<open>
  Claim C2. A transition to a state that the table does not list for the current state
  raises \<open>InvalidTransitionError\<close> and changes nothing: the machine (its current state
  and its history) and the store are as before, and nothing is emitted. In particular a
  request for \<open>executing\<close>, which is what an approval asks for, made on a machine that is
  already in \<open>executing\<close>, \<open>monitoring\<close>, \<open>completed\<close>, \<open>failed\<close> or \<open>paused\<close> is
  such an error and appends no second transition.
\<close>

theorem invalid_transition_changes_nothing:
  "(new_state \<notin> set (TRANSITIONS (current_state self)) \<longrightarrow>
      transition_to persist_state emit utcnow self w new_state ctx =
        \<lparr>raised = Some (InvalidTransitionError (current_state self) new_state),
         machine = self, store = w, emitted = []\<rparr>) \<and>
   (current_state self \<in> {EXECUTING, MONITORING, COMPLETED, FAILED, PAUSED} \<longrightarrow>
      transition_to persist_state emit utcnow self w EXECUTING ctx =
        \<lparr>raised = Some (InvalidTransitionError (current_state self) EXECUTING),
         machine = self, store = w, emitted = []\<rparr>)"
  by (auto simp: transition_to_def)

theorem invalid_transition_changes_nothing_witness:
  "EXECUTING \<notin> set (TRANSITIONS (current_state executing_machine)) \<and>
   current_state executing_machine \<in> {EXECUTING, MONITORING, COMPLETED, FAILED, PAUSED} \<and>
   transition_to persist_ok emit_ok 200 executing_machine executing_machine EXECUTING None =
     \<lparr>raised = Some (InvalidTransitionError EXECUTING EXECUTING),
      machine = executing_machine, store = executing_machine, emitted = []\<rparr>"
  using invalid_transition_changes_nothing
    [of EXECUTING executing_machine persist_ok emit_ok 200 executing_machine None]
  by (simp add: executing_machine_def)

text \<open>
  Claim C3, as the table has it. The claim asks for \<open>failed\<close>, \<open>cancelled\<close> and
  \<open>completed\<close> to be terminal and for every other state to reach \<open>paused\<close>,
  \<open>cancelled\<close> and \<open>failed\<close>. The table allows \<open>failed\<close> and \<open>completed\<close> to go
  back to \<open>idle\<close>, and \<open>idle\<close> cannot be paused.
\<close>

theorem terminal_states_counterexample:
  "TRANSITIONS FAILED = [IDLE] \<and> TRANSITIONS COMPLETED = [IDLE] \<and>
   PAUSED \<notin> set (TRANSITIONS IDLE) \<and> FAILED \<notin> set (TRANSITIONS IDLE)"
  by simp

text \<open>
  Claim C3, amended. The enum has the nine states listed and none for a cancelled
  execution. No state is terminal: every state has a successor, and \<open>failed\<close> and
  \<open>completed\<close> each have exactly one, \<open>idle\<close>. \<open>paused\<close> is entered from
  \<open>awaiting_approval\<close> only, and \<open>failed\<close> from \<open>analyzing\<close>, \<open>executing\<close> and
  \<open>monitoring\<close> only.
\<close>

theorem transition_table_shape:
  "(UNIV :: StrategyState set) =
     {IDLE, ANALYZING, PLANNING, AWAITING_APPROVAL, EXECUTING, MONITORING, COMPLETED,
      FAILED, PAUSED} \<and>
   TRANSITIONS FAILED = [IDLE] \<and> TRANSITIONS COMPLETED = [IDLE] \<and>
   TRANSITIONS s \<noteq> [] \<and>
   (PAUSED \<in> set (TRANSITIONS s) \<longleftrightarrow> s = AWAITING_APPROVAL) \<and>
   (FAILED \<in> set (TRANSITIONS s) \<longleftrightarrow> s \<in> {ANALYZING, EXECUTING, MONITORING})"
proof -
  have "x \<in> {IDLE, ANALYZING, PLANNING, AWAITING_APPROVAL, EXECUTING, MONITORING,
              COMPLETED, FAILED, PAUSED}" for x :: StrategyState
    by (cases x) simp_all
  then have "(UNIV :: StrategyState set) =
     {IDLE, ANALYZING, PLANNING, AWAITING_APPROVAL, EXECUTING, MONITORING, COMPLETED,
      FAILED, PAUSED}"
    by blast
  moreover have "TRANSITIONS s \<noteq> []"
    by (cases s) simp_all
  moreover have "PAUSED \<in> set (TRANSITIONS s) \<longleftrightarrow> s = AWAITING_APPROVAL"
    by (cases s) simp_all
  moreover have "FAILED \<in> set (TRANSITIONS s) \<longleftrightarrow> s \<in> {ANALYZING, EXECUTING, MONITORING}"
    by (cases s) simp_all
  ultimately show ?thesis by simp
qed

text \<open>
  Claim C9. On a listed transition the machine is updated first: whatever the two helpers
  do afterwards, the call leaves the machine with the new current state and the new record
  at the end of its history, and \<open>persist_state\<close> is run on that updated machine. When
  \<open>persist_state\<close> raises, the exception leaves the call, nothing is emitted and nothing
  is rolled back, so the machine is ahead of whatever the store holds.
\<close>

theorem persist_failure_keeps_new_state:
  "new_state \<in> set (TRANSITIONS (current_state self)) \<Longrightarrow>
   self' = self\<lparr>state_history := state_history self @
                    [\<lparr>from_state = current_state self, to_state = new_state,
                      transition_context = ctx, timestamp = utcnow\<rparr>],
                 current_state := new_state\<rparr> \<Longrightarrow>
   machine (transition_to persist_state emit utcnow self w new_state ctx) = self' \<and>
   store (transition_to persist_state emit utcnow self w new_state ctx) =
     snd (persist_state self' w) \<and>
   (fst (persist_state self' w) = Some e \<longrightarrow>
      transition_to persist_state emit utcnow self w new_state ctx =
        \<lparr>raised = Some (PersistFailed e), machine = self',
         store = snd (persist_state self' w), emitted = []\<rparr>)"
  by (auto simp: transition_to_def Let_def split: prod.splits option.splits)

theorem persist_failure_keeps_new_state_witness:
  "EXECUTING \<in> set (TRANSITIONS (current_state awaiting_machine)) \<and>
   fst (persist_unreachable executing_machine awaiting_machine) = Some ''store unreachable'' \<and>
   transition_to persist_unreachable emit_ok 100 awaiting_machine awaiting_machine EXECUTING
       (Some ''approved'') =
     \<lparr>raised = Some (PersistFailed ''store unreachable''), machine = executing_machine,
      store = awaiting_machine, emitted = []\<rparr> \<and>
   current_state executing_machine = EXECUTING \<and>
   current_state awaiting_machine = AWAITING_APPROVAL"
  using persist_failure_keeps_new_state
    [of EXECUTING awaiting_machine executing_machine "Some ''approved''" 100
        persist_unreachable emit_ok awaiting_machine "''store unreachable''"]
  by (simp add: awaiting_machine_def executing_machine_def persist_unreachable_def)

section \<open>Properties of the policy engine\<close>

text \<open>The engine's test for a block looks at the severities the evaluator reported.\<close>

lemma tagged_block_iff:
  "list_ex is_block (map (tag p) fs) \<longleftrightarrow> list_ex (\<lambda>f. fst f = Block) fs"
  by (induction fs) (simp_all add: is_block_def tag_def)

lemma system_violations:
  "map (tag SystemPolicy) (system_evaluator system_hits a) =
     map (\<lambda>m. \<lparr>policy_type = SystemPolicy, severity = Block, message = m\<rparr>) (system_hits a)"
  by (simp add: system_evaluator_def tag_def comp_def)

lemma system_block_iff:
  "list_ex is_block
     (map (\<lambda>m. \<lparr>policy_type = SystemPolicy, severity = Block, message = m\<rparr>) (system_hits a))
   \<longleftrightarrow> system_hits a \<noteq> []"
  by (cases "system_hits a") (simp_all add: is_block_def)

text \<open>
  Claim C1. The engine evaluates the System Policy, then the Session Policy, then the Risk
  Policy, and stops at a block. When the System Policy has a hit, the result holds the
  System violations only, whatever the Session and Risk evaluators would report: it is not
  approved, only the System evaluator ran, and the other two are recorded as skipped; the
  result is the same for any other Session and Risk evaluators, and every violation in it
  belongs to the System Policy. When the System Policy passes and the Session Policy
  blocks, the Risk Policy alone is skipped. When neither blocks, all three run and the
  violations are those of the Session Policy followed by those of the Risk Policy.
\<close>

theorem evaluation_order_short_circuits:
  "(system_hits a \<noteq> [] \<longrightarrow>
      PolicyEngine_evaluate system_hits session_policy risk_policy a =
        \<lparr>approved = False,
         violations = map (\<lambda>m. \<lparr>policy_type = SystemPolicy, severity = Block, message = m\<rparr>)
                        (system_hits a),
         evaluated = [SystemPolicy],
         skipped = [SessionPolicy, RiskPolicy]\<rparr> \<and>
      PolicyEngine_evaluate system_hits session_policy risk_policy a =
        PolicyEngine_evaluate system_hits session_policy' risk_policy' a \<and>
      list_all (\<lambda>v. policy_type v = SystemPolicy)
        (violations (PolicyEngine_evaluate system_hits session_policy risk_policy a))) \<and>
   (system_hits a = [] \<and> list_ex (\<lambda>f. fst f = Block) (session_policy a) \<longrightarrow>
      PolicyEngine_evaluate system_hits session_policy risk_policy a =
        \<lparr>approved = False,
         violations = map (tag SessionPolicy) (session_policy a),
         evaluated = [SystemPolicy, SessionPolicy],
         skipped = [RiskPolicy]\<rparr>) \<and>
   (system_hits a = [] \<and> \<not> list_ex (\<lambda>f. fst f = Block) (session_policy a) \<longrightarrow>
      PolicyEngine_evaluate system_hits session_policy risk_policy a =
        \<lparr>approved = \<not> list_ex (\<lambda>f. fst f = Block) (risk_policy a),
         violations = map (tag SessionPolicy) (session_policy a) @
                      map (tag RiskPolicy) (risk_policy a),
         evaluated = [SystemPolicy, SessionPolicy, RiskPolicy],
         skipped = []\<rparr>)"
proof -
  have sys: "PolicyEngine_evaluate system_hits ses risk a =
        \<lparr>approved = False,
         violations = map (\<lambda>m. \<lparr>policy_type = SystemPolicy, severity = Block, message = m\<rparr>)
                        (system_hits a),
         evaluated = [SystemPolicy],
         skipped = [SessionPolicy, RiskPolicy]\<rparr>"
    if "system_hits a \<noteq> []" for ses risk :: "'a evaluator"
    using that
    by (simp add: PolicyEngine_evaluate_def Let_def system_violations system_block_iff)
  have only: "list_all (\<lambda>v. policy_type v = SystemPolicy)
      (map (\<lambda>m. \<lparr>policy_type = SystemPolicy, severity = Block, message = m\<rparr>) (system_hits a))"
    by (simp add: list_all_iff)
  have ses: "PolicyEngine_evaluate system_hits session_policy risk_policy a =
        \<lparr>approved = False,
         violations = map (tag SessionPolicy) (session_policy a),
         evaluated = [SystemPolicy, SessionPolicy],
         skipped = [RiskPolicy]\<rparr>"
    if "system_hits a = []" "list_ex (\<lambda>f. fst f = Block) (session_policy a)"
    using that
    by (simp add: PolicyEngine_evaluate_def Let_def system_evaluator_def tagged_block_iff)
  have all: "PolicyEngine_evaluate system_hits session_policy risk_policy a =
        \<lparr>approved = \<not> list_ex (\<lambda>f. fst f = Block) (risk_policy a),
         violations = map (tag SessionPolicy) (session_policy a) @
                      map (tag RiskPolicy) (risk_policy a),
         evaluated = [SystemPolicy, SessionPolicy, RiskPolicy],
         skipped = []\<rparr>"
    if "system_hits a = []" "\<not> list_ex (\<lambda>f. fst f = Block) (session_policy a)"
    using that
    by (auto simp: PolicyEngine_evaluate_def Let_def system_evaluator_def tagged_block_iff)
  from sys [of session_policy risk_policy] sys [of session_policy' risk_policy'] only ses all
  show ?thesis
    by simp
qed

theorem evaluation_order_short_circuits_witness:
  "emergency_stop () \<noteq> [] \<and>
   expired_session () \<noteq> [] \<and>
   PolicyEngine_evaluate emergency_stop expired_session slippage_warning () =
     \<lparr>approved = False,
      violations = [\<lparr>policy_type = SystemPolicy, severity = Block,
                     message = ''emergency stop''\<rparr>],
      evaluated = [SystemPolicy],
      skipped = [SessionPolicy, RiskPolicy]\<rparr>"
proof -
  have h: "emergency_stop () \<noteq> []"
    by (simp add: emergency_stop_def)
  have s: "expired_session () \<noteq> []"
    by (simp add: expired_session_def)
  from evaluation_order_short_circuits
         [of emergency_stop "()" expired_session slippage_warning] h
  have "PolicyEngine_evaluate emergency_stop expired_session slippage_warning () =
        \<lparr>approved = False,
         violations = map (\<lambda>m. \<lparr>policy_type = SystemPolicy, severity = Block, message = m\<rparr>)
                        (emergency_stop ()),
         evaluated = [SystemPolicy],
         skipped = [SessionPolicy, RiskPolicy]\<rparr>"
    by blast
  with h s show ?thesis
    by (simp add: emergency_stop_def)
qed

section \<open>Properties of the rounding\<close>

lemma two_powi_less_iff: "(2::real) powi m < 2 powi n \<longleftrightarrow> m < n"
proof
  assume less: "(2::real) powi m < 2 powi n"
  show "m < n"
  proof (rule ccontr)
    assume "\<not> m < n"
    then have "n \<le> m"
      by simp
    then have "(2::real) powi n \<le> 2 powi m"
      by (intro power_int_increasing) simp_all
    with less show False
      by simp
  qed
next
  assume "m < n"
  then show "(2::real) powi m < 2 powi n"
    by (intro power_int_strict_increasing) simp_all
qed

lemma two_powi_le_iff: "(2::real) powi m \<le> 2 powi n \<longleftrightarrow> m \<le> n"
  using two_powi_less_iff [of n m] by (simp add: not_less [symmetric])

text \<open>The search finds the binade of a magnitude that lies in one it can reach.\<close>

lemma find_binade_eq:
  "2 powi k \<le> x \<Longrightarrow> x < 2 powi (k + 1) \<Longrightarrow> - 1022 \<le> k \<Longrightarrow> k \<le> int n - 1022 \<Longrightarrow>
   find_binade n x = k"
proof (induction n)
  case 0
  then show ?case by simp
next
  case (Suc n)
  show ?case
  proof (cases "2 powi (int (Suc n) - 1022) \<le> x")
    case True
    with Suc.prems(2) have "(2::real) powi (int (Suc n) - 1022) < 2 powi (k + 1)"
      by simp
    then have "int (Suc n) - 1022 < k + 1"
      by (simp only: two_powi_less_iff)
    with Suc.prems(4) True show ?thesis
      by simp
  next
    case False
    with Suc.prems(1) have "(2::real) powi k < 2 powi (int (Suc n) - 1022)"
      by simp
    then have "k < int (Suc n) - 1022"
      by (simp only: two_powi_less_iff)
    then have "k \<le> int n - 1022"
      by simp
    from Suc.IH [OF Suc.prems(1,2,3) this] False show ?thesis
      by simp
  qed
qed

lemma find_binade_range: "- 1022 \<le> find_binade n x \<and> find_binade n x \<le> int n - 1022"
  by (induction n) auto

lemma find_binade_lower: "- 1022 < find_binade n x \<Longrightarrow> 2 powi (find_binade n x) \<le> x"
  by (induction n) (auto split: if_splits)

lemma find_binade_upper:
  "x < 2 powi (int n - 1021) \<Longrightarrow> x < 2 powi (find_binade n x + 1)"
proof (induction n)
  case 0
  then show ?case by simp
next
  case (Suc n)
  show ?case
  proof (cases "2 powi (int (Suc n) - 1022) \<le> x")
    case True
    with Suc.prems show ?thesis
      by (simp add: algebra_simps)
  next
    case False
    then have "x < 2 powi (int n - 1021)"
      by (simp add: algebra_simps)
    from Suc.IH [OF this] False show ?thesis
      by simp
  qed
qed

text \<open>
  How a concrete number is rounded: name its binade \<open>k\<close>, then round its quotient by
  \<open>2 ^ (k - 52)\<close> to an integer.
\<close>

lemma f64_eval:
  assumes "2 powi k \<le> \<bar>x\<bar>" and "\<bar>x\<bar> < 2 powi (k + 1)" and "- 1022 \<le> k" and "k \<le> 1023"
    and "of_int (round_half_even (x / 2 powi (k - 52))) * 2 powi (k - 52) = y"
  shows "f64 x = y"
proof -
  have "binade x = k"
    unfolding binade_def using assms(1-4) by (intro find_binade_eq) simp_all
  with assms(5) show ?thesis
    by (simp add: f64_def)
qed

lemma round_half_even_of_int [simp]: "round_half_even (of_int n) = n"
  by (simp add: round_half_even_def)

lemma round_half_even_mono:
  assumes "x \<le> y"
  shows "round_half_even x \<le> round_half_even y"
proof (cases "\<lfloor>x\<rfloor> < \<lfloor>y\<rfloor>")
  case True
  have "round_half_even x \<le> \<lfloor>x\<rfloor> + 1"
    by (simp add: round_half_even_def Let_def)
  moreover have "\<lfloor>y\<rfloor> \<le> round_half_even y"
    by (simp add: round_half_even_def Let_def)
  ultimately show ?thesis
    using True by linarith
next
  case False
  with assms have eq: "\<lfloor>x\<rfloor> = \<lfloor>y\<rfloor>"
    using floor_mono [of x y] by linarith
  with assms show ?thesis
    unfolding round_half_even_def Let_def by (auto; linarith)
qed

lemma f64_nonneg: "0 \<le> x \<Longrightarrow> 0 \<le> f64 x"
proof -
  assume x: "0 \<le> x"
  have "0 \<le> x / 2 powi (binade x - 52)" using x by simp
  then have "round_half_even 0 \<le> round_half_even (x / 2 powi (binade x - 52))"
    by (rule round_half_even_mono)
  then have "0 \<le> round_half_even (x / 2 powi (binade x - 52))"
    using round_half_even_of_int [of 0] by simp
  then show ?thesis by (simp add: f64_def Let_def)
qed

lemma f64_mono:
  assumes x: "0 \<le> x" and xy: "x \<le> y" and y: "y < 2 powi 1024"
  shows "f64 x \<le> f64 y"
proof -
  let ?bx = "binade x" and ?by = "binade y"
  have ax: "\<bar>x\<bar> = x" and ay: "\<bar>y\<bar> = y" using x xy by simp_all
  have upx: "x < 2 powi (?bx + 1)"
    unfolding binade_def ax using xy y by (intro find_binade_upper) simp
  have upy: "y < 2 powi (?by + 1)"
    unfolding binade_def ay using y by (intro find_binade_upper) simp
  have lowx: "2 powi ?bx \<le> x" if "- 1022 < ?bx"
    using that find_binade_lower [of 2045 x] by (simp add: binade_def ax)
  have lowy: "2 powi ?by \<le> y" if "- 1022 < ?by"
    using that find_binade_lower [of 2045 y] by (simp add: binade_def ay)
  have rx: "- 1022 \<le> ?bx" and ry: "- 1022 \<le> ?by"
    using find_binade_range [of 2045] by (simp_all add: binade_def)
  have le: "?bx \<le> ?by"
  proof (rule ccontr)
    assume "\<not> ?bx \<le> ?by"
    then have lt: "?by + 1 \<le> ?bx" by simp
    with ry have "- 1022 < ?bx" by simp
    from lowx [OF this] have "2 powi ?bx \<le> x" .
    moreover from lt have "(2::real) powi (?by + 1) \<le> 2 powi ?bx"
      by (simp only: two_powi_le_iff)
    ultimately show False using upy xy by linarith
  qed
  show ?thesis
  proof (cases "?bx = ?by")
    case True
    have "x / 2 powi (?by - 52) \<le> y / 2 powi (?by - 52)"
      using xy by (simp add: divide_right_mono)
    then have "round_half_even (x / 2 powi (?by - 52)) \<le> round_half_even (y / 2 powi (?by - 52))"
      by (rule round_half_even_mono)
    then have "real_of_int (round_half_even (x / 2 powi (?by - 52))) * 2 powi (?by - 52) \<le>
               real_of_int (round_half_even (y / 2 powi (?by - 52))) * 2 powi (?by - 52)"
      by (intro mult_right_mono) simp_all
    then show ?thesis by (simp add: f64_def Let_def True)
  next
    case False
    with le have lt: "?bx < ?by" by simp
    with rx have "- 1022 < ?by" by simp
    from lowy [OF this] have ly: "2 powi ?by \<le> y" .
    have "(2::real) powi ?by / 2 powi (?by - 52) = 2 powi 52"
      by (simp add: power_int_diff)
    then have "real_of_int (2 ^ 52) \<le> y / 2 powi (?by - 52)"
      using ly divide_right_mono [of "2 powi ?by" y "2 powi (?by - 52)"] by simp
    then have "round_half_even (real_of_int (2 ^ 52)) \<le> round_half_even (y / 2 powi (?by - 52))"
      by (rule round_half_even_mono)
    then have "(2::int) ^ 52 \<le> round_half_even (y / 2 powi (?by - 52))"
      by (simp only: round_half_even_of_int)
    then have "real_of_int (2 ^ 52) \<le> real_of_int (round_half_even (y / 2 powi (?by - 52)))"
      by (simp only: of_int_le_iff)
    then have "real_of_int (2 ^ 52) * 2 powi (?by - 52) \<le>
               real_of_int (round_half_even (y / 2 powi (?by - 52))) * 2 powi (?by - 52)"
      by (intro mult_right_mono) simp_all
    moreover have "real_of_int (2 ^ 52) * 2 powi (?by - 52) = 2 powi ?by"
      by (simp add: power_int_diff)
    ultimately have "2 powi ?by \<le>
        real_of_int (round_half_even (y / 2 powi (?by - 52))) * 2 powi (?by - 52)"
      by linarith
    then have big: "2 powi ?by \<le> f64 y"
      by (simp only: f64_def Let_def)
    from lt have "(2::real) powi (?bx + 1) \<le> 2 powi ?by"
      by (simp add: two_powi_le_iff)
    with upx have xlt: "x \<le> 2 powi ?by" by linarith
    define d where "d = nat (?by - (?bx - 52))"
    have d: "int d = ?by - (?bx - 52)" using lt by (simp add: d_def)
    have "(2::real) powi (?by - (?bx - 52)) = 2 powi ?by / 2 powi (?bx - 52)"
      by (rule power_int_diff) simp
    then have "(2::real) powi ?by / 2 powi (?bx - 52) = 2 powi (int d)"
      by (simp only: d)
    then have q: "(2::real) powi ?by / 2 powi (?bx - 52) = real_of_int (2 ^ d)"
      by simp
    have "x / 2 powi (?bx - 52) \<le> 2 powi ?by / 2 powi (?bx - 52)"
      using xlt by (simp add: divide_right_mono)
    then have "x / 2 powi (?bx - 52) \<le> real_of_int (2 ^ d)"
      by (simp only: q)
    then have "round_half_even (x / 2 powi (?bx - 52)) \<le> round_half_even (real_of_int (2 ^ d))"
      by (rule round_half_even_mono)
    then have "round_half_even (x / 2 powi (?bx - 52)) \<le> 2 ^ d"
      by (simp only: round_half_even_of_int)
    then have "real_of_int (round_half_even (x / 2 powi (?bx - 52))) \<le> real_of_int (2 ^ d)"
      by (simp only: of_int_le_iff)
    then have "real_of_int (round_half_even (x / 2 powi (?bx - 52))) * 2 powi (?bx - 52) \<le>
               real_of_int (2 ^ d) * 2 powi (?bx - 52)"
      by (intro mult_right_mono) simp_all
    moreover have "real_of_int (2 ^ d) * 2 powi (?bx - 52) = 2 powi ?by"
    proof -
      have nz: "(2::real) powi (?bx - 52) \<noteq> 0" by simp
      have "2 powi ?by / 2 powi (?bx - 52) * 2 powi (?bx - 52) = (2::real) powi ?by"
        by simp
      then show ?thesis
        by (simp only: q)
    qed
    ultimately have "real_of_int (round_half_even (x / 2 powi (?bx - 52))) * 2 powi (?bx - 52) \<le>
        2 powi ?by"
      by linarith
    then have "f64 x \<le> 2 powi ?by"
      by (simp only: f64_def Let_def)
    with big show ?thesis by linarith
  qed
qed


section \<open>Properties of the risk engine\<close>

text \<open>The weights as binary64 numbers. Each of them is its own rounding.\<close>

lemma double_0_2: "f64 0.2 = 3602879701896397 / 18014398509481984"
  by (rule f64_eval [where k = "-3"]) (simp_all add: round_half_even_def)

lemma double_0_2_fixed: "f64 (3602879701896397 / 18014398509481984) = 3602879701896397 / 18014398509481984"
  by (rule f64_eval [where k = "-3"]) (simp_all add: round_half_even_def)

lemma double_0_25: "f64 0.25 = 1 / 4"
  by (rule f64_eval [where k = "-2"]) (simp_all add: round_half_even_def)

lemma double_0_25_fixed: "f64 (1 / 4) = 1 / 4"
  by (rule f64_eval [where k = "-2"]) (simp_all add: round_half_even_def)

lemma double_0_15: "f64 0.15 = 5404319552844595 / 36028797018963968"
  by (rule f64_eval [where k = "-3"]) (simp_all add: round_half_even_def)

lemma double_0_15_fixed: "f64 (5404319552844595 / 36028797018963968) = 5404319552844595 / 36028797018963968"
  by (rule f64_eval [where k = "-3"]) (simp_all add: round_half_even_def)

lemma double_0_1: "f64 0.1 = 3602879701896397 / 36028797018963968"
  by (rule f64_eval [where k = "-4"]) (simp_all add: round_half_even_def)

lemma double_0_1_fixed: "f64 (3602879701896397 / 36028797018963968) = 3602879701896397 / 36028797018963968"
  by (rule f64_eval [where k = "-4"]) (simp_all add: round_half_even_def)

lemma weights_get_position_limit: "weights_get ''position_limit'' = 3602879701896397 / 18014398509481984"
proof -
  have "weights_get ''position_limit'' = f64 0.2"
    by (simp add: weights_get_def weights_def)
  then show ?thesis
    by (simp only: double_0_2)
qed

lemma weights_get_daily_loss: "weights_get ''daily_loss'' = 1 / 4"
proof -
  have "weights_get ''daily_loss'' = f64 0.25"
    by (simp add: weights_get_def weights_def)
  then show ?thesis
    by (simp only: double_0_25)
qed

lemma weights_get_concentration: "weights_get ''concentration'' = 5404319552844595 / 36028797018963968"
proof -
  have "weights_get ''concentration'' = f64 0.15"
    by (simp add: weights_get_def weights_def)
  then show ?thesis
    by (simp only: double_0_15)
qed

lemma weights_get_slippage: "weights_get ''slippage'' = 5404319552844595 / 36028797018963968"
proof -
  have "weights_get ''slippage'' = f64 0.15"
    by (simp add: weights_get_def weights_def)
  then show ?thesis
    by (simp only: double_0_15)
qed

lemma weights_get_gas_cost: "weights_get ''gas_cost'' = 3602879701896397 / 36028797018963968"
proof -
  have "weights_get ''gas_cost'' = f64 0.1"
    by (simp add: weights_get_def weights_def)
  then show ?thesis
    by (simp only: double_0_1)
qed

lemma weights_get_contract_risk: "weights_get ''contract_risk'' = 5404319552844595 / 36028797018963968"
proof -
  have "weights_get ''contract_risk'' = f64 0.15"
    by (simp add: weights_get_def weights_def)
  then show ?thesis
    by (simp only: double_0_15)
qed

lemma weights_get_liquidity: "weights_get ''liquidity'' = 3602879701896397 / 36028797018963968"
proof -
  have "weights_get ''liquidity'' = f64 0.1"
    by (simp add: weights_get_def weights_def)
  then show ?thesis
    by (simp only: double_0_1)
qed

lemma weights_get_default: "k \<notin> set (map fst weights) \<Longrightarrow> weights_get k = f64 0.1"
proof -
  assume "k \<notin> set (map fst weights)"
  then have "map_of weights k = None"
    by (simp add: map_of_eq_None_iff)
  then show ?thesis
    by (simp add: weights_get_def)
qed

text \<open>
  The six configured results at contribution 1, added in the order of the engine's checks:
  the running totals are 0.2, 0.45, 0.6, 0.75, 0.85 and 1.
\<close>

lemma engine_order_sum_1:
  "f64 (0 + 3602879701896397 / 18014398509481984) =
     3602879701896397 / 18014398509481984"
  by (rule f64_eval [where k = "-3"]) (simp_all add: round_half_even_def)

lemma engine_order_step_1:
  "add_contribution (0) (check_result ''position_limit'' 1) =
     3602879701896397 / 18014398509481984"
proof -
  have "add_contribution (0) (check_result ''position_limit'' 1) =
        f64 (0 + 3602879701896397 / 18014398509481984)"
    by (simp add: add_contribution_def check_result_def weights_get_position_limit double_0_2_fixed)
  then show ?thesis
    by (simp only: engine_order_sum_1)
qed

lemma engine_order_sum_2:
  "f64 (3602879701896397 / 18014398509481984 + 1 / 4) =
     8106479329266893 / 18014398509481984"
  by (rule f64_eval [where k = "-2"]) (simp_all add: round_half_even_def)

lemma engine_order_step_2:
  "add_contribution (3602879701896397 / 18014398509481984) (check_result ''daily_loss'' 1) =
     8106479329266893 / 18014398509481984"
proof -
  have "add_contribution (3602879701896397 / 18014398509481984) (check_result ''daily_loss'' 1) =
        f64 (3602879701896397 / 18014398509481984 + 1 / 4)"
    by (simp add: add_contribution_def check_result_def weights_get_daily_loss double_0_25_fixed)
  then show ?thesis
    by (simp only: engine_order_sum_2)
qed

lemma engine_order_sum_3:
  "f64 (8106479329266893 / 18014398509481984 + 5404319552844595 / 36028797018963968) =
     5404319552844595 / 9007199254740992"
  by (rule f64_eval [where k = "-1"]) (simp_all add: round_half_even_def)

lemma engine_order_step_3:
  "add_contribution (8106479329266893 / 18014398509481984) (check_result ''concentration'' 1) =
     5404319552844595 / 9007199254740992"
proof -
  have "add_contribution (8106479329266893 / 18014398509481984) (check_result ''concentration'' 1) =
        f64 (8106479329266893 / 18014398509481984 + 5404319552844595 / 36028797018963968)"
    by (simp add: add_contribution_def check_result_def weights_get_concentration double_0_15_fixed)
  then show ?thesis
    by (simp only: engine_order_sum_3)
qed

lemma engine_order_sum_4:
  "f64 (5404319552844595 / 9007199254740992 + 5404319552844595 / 36028797018963968) =
     3 / 4"
  by (rule f64_eval [where k = "-1"]) (simp_all add: round_half_even_def)

lemma engine_order_step_4:
  "add_contribution (5404319552844595 / 9007199254740992) (check_result ''slippage'' 1) =
     3 / 4"
proof -
  have "add_contribution (5404319552844595 / 9007199254740992) (check_result ''slippage'' 1) =
        f64 (5404319552844595 / 9007199254740992 + 5404319552844595 / 36028797018963968)"
    by (simp add: add_contribution_def check_result_def weights_get_slippage double_0_15_fixed)
  then show ?thesis
    by (simp only: engine_order_sum_4)
qed

lemma engine_order_sum_5:
  "f64 (3 / 4 + 3602879701896397 / 36028797018963968) =
     7656119366529843 / 9007199254740992"
  by (rule f64_eval [where k = "-1"]) (simp_all add: round_half_even_def)

lemma engine_order_step_5:
  "add_contribution (3 / 4) (check_result ''gas_cost'' 1) =
     7656119366529843 / 9007199254740992"
proof -
  have "add_contribution (3 / 4) (check_result ''gas_cost'' 1) =
        f64 (3 / 4 + 3602879701896397 / 36028797018963968)"
    by (simp add: add_contribution_def check_result_def weights_get_gas_cost double_0_1_fixed)
  then show ?thesis
    by (simp only: engine_order_sum_5)
qed

lemma engine_order_sum_6:
  "f64 (7656119366529843 / 9007199254740992 + 5404319552844595 / 36028797018963968) =
     1"
  by (rule f64_eval [where k = "-1"]) (simp_all add: round_half_even_def)

lemma engine_order_step_6:
  "add_contribution (7656119366529843 / 9007199254740992) (check_result ''contract_risk'' 1) =
     1"
proof -
  have "add_contribution (7656119366529843 / 9007199254740992) (check_result ''contract_risk'' 1) =
        f64 (7656119366529843 / 9007199254740992 + 5404319552844595 / 36028797018963968)"
    by (simp add: add_contribution_def check_result_def weights_get_contract_risk double_0_15_fixed)
  then show ?thesis
    by (simp only: engine_order_sum_6)
qed

lemma all_at_one_score: "calculate_risk_score all_at_one = 1"
  by (simp only: calculate_risk_score_def all_at_one_def foldl.simps
      engine_order_step_1 engine_order_step_2 engine_order_step_3 engine_order_step_4
      engine_order_step_5 engine_order_step_6)













text \<open>One more result, of a check the table does not name, added to the total 1.\<close>

lemma unknown_check_sum_7:
  "f64 (1 + 3602879701896397 / 36028797018963968) =
     2476979795053773 / 2251799813685248"
  by (rule f64_eval [where k = "0"]) (simp_all add: round_half_even_def)

lemma unknown_check_step_7:
  "add_contribution (1) (check_result ''liquidity'' 1) =
     2476979795053773 / 2251799813685248"
proof -
  have "add_contribution (1) (check_result ''liquidity'' 1) =
        f64 (1 + 3602879701896397 / 36028797018963968)"
    by (simp add: add_contribution_def check_result_def weights_get_liquidity double_0_1_fixed)
  then show ?thesis
    by (simp only: unknown_check_sum_7)
qed

text \<open>
  One step of the sum, for a contribution in \<open>[0, 1]\<close>: the new total is not negative
  and is at most the rounded sum of a bound on the old total and the weight.
\<close>

lemma add_contribution_bounds:
  assumes s: "0 \<le> s" "s \<le> S"
    and c: "0 \<le> risk_contribution r" "risk_contribution r \<le> 1"
    and w: "weights_get (check_name r) = W" "0 \<le> W" "f64 W = W"
    and fin: "S + W < 2 powi 1024"
  shows "0 \<le> add_contribution s r \<and> add_contribution s r \<le> f64 (S + W)"
proof -
  let ?p = "f64 (risk_contribution r * W)"
  have cw: "0 \<le> risk_contribution r * W" "risk_contribution r * W \<le> W"
    using c w(2) by (simp_all add: mult_left_le_one_le)
  have Wfin: "W < 2 powi 1024"
    using fin s by linarith
  have p0: "0 \<le> ?p"
    using cw(1) by (rule f64_nonneg)
  have "?p \<le> f64 W"
    using cw Wfin by (intro f64_mono)
  then have pW: "?p \<le> W"
    by (simp only: w(3))
  have "0 \<le> s + ?p" "s + ?p \<le> S + W"
    using s p0 pW by linarith+
  then have "0 \<le> f64 (s + ?p)" "f64 (s + ?p) \<le> f64 (S + W)"
    using fin by (auto intro: f64_nonneg f64_mono)
  then show ?thesis
    by (simp add: add_contribution_def w(1))
qed

lemma weights_keys:
  "map fst weights =
     [''position_limit'', ''daily_loss'', ''concentration'', ''slippage'', ''gas_cost'',
      ''contract_risk'']"
  by (simp add: weights_def)

text \<open>
  In the order in which \<open>evaluate\<close> passes the results, that of \<open>self.checks\<close>, the
  score of six results with contributions in \<open>[0, 1]\<close> does lie in \<open>[0, 1]\<close>.
\<close>

lemma risk_score_in_engine_order:
  assumes names: "map check_name rs = map fst weights"
    and range: "list_all (\<lambda>r. 0 \<le> risk_contribution r \<and> risk_contribution r \<le> 1) rs"
  shows "0 \<le> calculate_risk_score rs \<and> calculate_risk_score rs \<le> 1"
proof -
  from names obtain r1 r2 r3 r4 r5 r6 where rs: "rs = [r1, r2, r3, r4, r5, r6]"
    and n: "check_name r1 = ''position_limit''" "check_name r2 = ''daily_loss''"
      "check_name r3 = ''concentration''" "check_name r4 = ''slippage''"
      "check_name r5 = ''gas_cost''" "check_name r6 = ''contract_risk''"
    unfolding weights_keys by (auto simp: map_eq_Cons_conv)
  from range have c:
    "0 \<le> risk_contribution r1" "risk_contribution r1 \<le> 1"
    "0 \<le> risk_contribution r2" "risk_contribution r2 \<le> 1"
    "0 \<le> risk_contribution r3" "risk_contribution r3 \<le> 1"
    "0 \<le> risk_contribution r4" "risk_contribution r4 \<le> 1"
    "0 \<le> risk_contribution r5" "risk_contribution r5 \<le> 1"
    "0 \<le> risk_contribution r6" "risk_contribution r6 \<le> 1"
    by (simp_all add: rs)
  define s1 where "s1 = add_contribution 0 r1"
  define s2 where "s2 = add_contribution s1 r2"
  define s3 where "s3 = add_contribution s2 r3"
  define s4 where "s4 = add_contribution s3 r4"
  define s5 where "s5 = add_contribution s4 r5"
  define s6 where "s6 = add_contribution s5 r6"
  have b1: "0 \<le> s1 \<and> s1 \<le> 3602879701896397 / 18014398509481984"
  proof -
    have "0 \<le> add_contribution 0 r1 \<and>
          add_contribution 0 r1 \<le> f64 (0 + 3602879701896397 / 18014398509481984)"
      by (intro add_contribution_bounds [OF _ _ c(1,2)])
        (simp_all add: n weights_get_position_limit double_0_2_fixed)
    then show ?thesis
      by (simp only: s1_def engine_order_sum_1)
  qed
  have b2: "0 \<le> s2 \<and> s2 \<le> 8106479329266893 / 18014398509481984"
  proof -
    have "0 \<le> add_contribution s1 r2 \<and>
          add_contribution s1 r2 \<le> f64 (3602879701896397 / 18014398509481984 + 1 / 4)"
      using b1 by (intro add_contribution_bounds [OF _ _ c(3,4)])
        (simp_all add: n weights_get_daily_loss double_0_25_fixed)
    then show ?thesis
      by (simp only: s2_def engine_order_sum_2)
  qed
  have b3: "0 \<le> s3 \<and> s3 \<le> 5404319552844595 / 9007199254740992"
  proof -
    have "0 \<le> add_contribution s2 r3 \<and>
          add_contribution s2 r3 \<le> f64 (8106479329266893 / 18014398509481984 + 5404319552844595 / 36028797018963968)"
      using b2 by (intro add_contribution_bounds [OF _ _ c(5,6)])
        (simp_all add: n weights_get_concentration double_0_15_fixed)
    then show ?thesis
      by (simp only: s3_def engine_order_sum_3)
  qed
  have b4: "0 \<le> s4 \<and> s4 \<le> 3 / 4"
  proof -
    have "0 \<le> add_contribution s3 r4 \<and>
          add_contribution s3 r4 \<le> f64 (5404319552844595 / 9007199254740992 + 5404319552844595 / 36028797018963968)"
      using b3 by (intro add_contribution_bounds [OF _ _ c(7,8)])
        (simp_all add: n weights_get_slippage double_0_15_fixed)
    then show ?thesis
      by (simp only: s4_def engine_order_sum_4)
  qed
  have b5: "0 \<le> s5 \<and> s5 \<le> 7656119366529843 / 9007199254740992"
  proof -
    have "0 \<le> add_contribution s4 r5 \<and>
          add_contribution s4 r5 \<le> f64 (3 / 4 + 3602879701896397 / 36028797018963968)"
      using b4 by (intro add_contribution_bounds [OF _ _ c(9,10)])
        (simp_all add: n weights_get_gas_cost double_0_1_fixed)
    then show ?thesis
      by (simp only: s5_def engine_order_sum_5)
  qed
  have b6: "0 \<le> s6 \<and> s6 \<le> 1"
  proof -
    have "0 \<le> add_contribution s5 r6 \<and>
          add_contribution s5 r6 \<le> f64 (7656119366529843 / 9007199254740992 + 5404319552844595 / 36028797018963968)"
      using b5 by (intro add_contribution_bounds [OF _ _ c(11,12)])
        (simp_all add: n weights_get_contract_risk double_0_15_fixed)
    then show ?thesis
      by (simp only: s6_def engine_order_sum_6)
  qed
  have "calculate_risk_score rs = s6"
    by (simp add: calculate_risk_score_def rs s1_def s2_def s3_def s4_def s5_def s6_def)
  with b6 show ?thesis by simp
qed


text \<open>
  Claim C10. A check name that is not a key of the weight table is given the default
  weight, the float 0.1, so a result with such a name adds its contribution times that
  weight to the running total; and there is a list of results, every contribution in
  \<open>[0, 1]\<close>, whose score is above 1.
\<close>

theorem unknown_check_weighs_a_tenth:
  "(k \<notin> set (map fst weights) \<longrightarrow>
      weights_get k = f64 0.1 \<and> weights_get k = 3602879701896397 / 36028797018963968) \<and>
   (check_name r \<notin> set (map fst weights) \<longrightarrow>
      calculate_risk_score (rs @ [r]) =
        f64 (calculate_risk_score rs + f64 (risk_contribution r * f64 0.1))) \<and>
   (\<exists>results.
      list_all (\<lambda>r. 0 \<le> risk_contribution r \<and> risk_contribution r \<le> 1) results \<and>
      1 < calculate_risk_score results)"
proof -
  have a: "weights_get k = f64 0.1 \<and> weights_get k = 3602879701896397 / 36028797018963968"
    if "k \<notin> set (map fst weights)"
    using weights_get_default [OF that] double_0_1 by simp
  have b: "calculate_risk_score (rs @ [r]) =
           f64 (calculate_risk_score rs + f64 (risk_contribution r * f64 0.1))"
    if "check_name r \<notin> set (map fst weights)"
    using weights_get_default [OF that]
    by (simp add: calculate_risk_score_def add_contribution_def)
  have l: "list_all (\<lambda>r. 0 \<le> risk_contribution r \<and> risk_contribution r \<le> 1)
             (all_at_one @ [check_result ''liquidity'' 1])"
    by (simp add: all_at_one_def check_result_def)
  have "calculate_risk_score (all_at_one @ [check_result ''liquidity'' 1]) =
        add_contribution (calculate_risk_score all_at_one) (check_result ''liquidity'' 1)"
    by (simp add: calculate_risk_score_def)
  then have v: "calculate_risk_score (all_at_one @ [check_result ''liquidity'' 1]) =
        2476979795053773 / 2251799813685248"
    by (simp only: all_at_one_score unknown_check_step_7)
  have "1 < calculate_risk_score (all_at_one @ [check_result ''liquidity'' 1])"
    unfolding v by simp
  with l
  have "\<exists>results.
          list_all (\<lambda>r. 0 \<le> risk_contribution r \<and> risk_contribution r \<le> 1) results \<and>
          1 < calculate_risk_score results"
    by (intro exI [of _ "all_at_one @ [check_result ''liquidity'' 1]"]) simp
  with a b show ?thesis
    by blast
qed

theorem unknown_check_weighs_a_tenth_witness:
  "''liquidity'' \<notin> set (map fst weights) \<and>
   check_name (check_result ''liquidity'' 1) \<notin> set (map fst weights) \<and>
   weights_get ''liquidity'' = 3602879701896397 / 36028797018963968 \<and>
   calculate_risk_score (all_at_one @ [check_result ''liquidity'' 1]) =
     2476979795053773 / 2251799813685248"
proof -
  have k: "''liquidity'' \<notin> set (map fst weights)"
    unfolding weights_keys by simp
  have n: "check_name (check_result ''liquidity'' 1) = ''liquidity''"
    by (simp add: check_result_def)
  have c: "risk_contribution (check_result ''liquidity'' 1) = 1"
    by (simp add: check_result_def)
  note inst = unknown_check_weighs_a_tenth
      [of "''liquidity''" "check_result ''liquidity'' 1" all_at_one]
  from inst k have w: "weights_get ''liquidity'' = 3602879701896397 / 36028797018963968"
    by blast
  from inst k n
  have "calculate_risk_score (all_at_one @ [check_result ''liquidity'' 1]) =
        f64 (calculate_risk_score all_at_one +
             f64 (risk_contribution (check_result ''liquidity'' 1) * f64 0.1))"
    by simp
  then have "calculate_risk_score (all_at_one @ [check_result ''liquidity'' 1]) =
        f64 (1 + f64 (1 * (3602879701896397 / 36028797018963968)))"
    by (simp only: all_at_one_score c double_0_1)
  then have "calculate_risk_score (all_at_one @ [check_result ''liquidity'' 1]) =
        f64 (1 + 3602879701896397 / 36028797018963968)"
    by (simp only: mult_1 double_0_1_fixed)
  then have v: "calculate_risk_score (all_at_one @ [check_result ''liquidity'' 1]) =
        2476979795053773 / 2251799813685248"
    by (simp only: unknown_check_sum_7)
  from k n w v show ?thesis
    by simp
qed

section \<open>Properties of the recovery loop\<close>

text \<open>
  When every call of the operation raises an unrecoverable error and the escalation
  returns, the loop runs all its iterations: the operation is invoked once in each.
\<close>

lemma retry_loop_unrecoverable_count:
  "(\<And>k. \<exists>e. execute h k = RaisesUnrecoverable e) \<Longrightarrow>
   (\<And>e. escalate_to_human h e = None) \<Longrightarrow>
   executions (fst (retry_loop h n a)) = n \<and> snd (retry_loop h n a) = None"
proof (induction n arbitrary: a)
  case 0
  then show ?case by (simp add: executions_def)
next
  case (Suc n)
  from Suc.prems(1) obtain e where e: "execute h a = RaisesUnrecoverable e"
    by blast
  from Suc.IH [OF Suc.prems, of "Suc a"] e Suc.prems(2) show ?case
    by (auto simp: executions_def split: prod.splits)
qed

text \<open>
  Claim C4, on a run with \<open>max_retries = 3\<close> whose operation raises an unrecoverable
  error each time. The claim has the operation never invoked again after the first such
  failure. The run escalates and then goes on: the operation is invoked three times, the
  escalation is called three times, and the fallback runs at the end.
\<close>

theorem unrecoverable_error_is_retried:
  "execute_with_recovery always_unrecoverable 3 =
     ([Execute 0, EscalateToHuman ''insufficient funds'',
       Execute 1, EscalateToHuman ''insufficient funds'',
       Execute 2, EscalateToHuman ''insufficient funds'',
       TryFallbackStrategies], ReturnedNone) \<and>
   executions (fst (execute_with_recovery always_unrecoverable 3)) = 3"
proof -
  have loop: "retry_loop always_unrecoverable (Suc (Suc (Suc 0))) 0 =
     ([Execute 0, EscalateToHuman ''insufficient funds'',
       Execute 1, EscalateToHuman ''insufficient funds'',
       Execute 2, EscalateToHuman ''insufficient funds''], None)"
    by (simp add: always_unrecoverable_def numeral_2_eq_2)
  have n3: "nat 3 = Suc (Suc (Suc 0))"
    by simp
  have fb: "try_fallback_strategies always_unrecoverable = None"
    by (simp add: always_unrecoverable_def)
  have run: "execute_with_recovery always_unrecoverable 3 =
     ([Execute 0, EscalateToHuman ''insufficient funds'',
       Execute 1, EscalateToHuman ''insufficient funds'',
       Execute 2, EscalateToHuman ''insufficient funds'',
       TryFallbackStrategies], ReturnedNone)"
    unfolding execute_with_recovery_def n3 loop fb by simp
  show ?thesis
    unfolding run by (simp add: executions_def)
qed

section \<open>Properties of the circuit breaker\<close>

text \<open>
  One call whose function raises, on a breaker that is closed, or open with its failure
  count at the threshold or above: the threshold is unchanged and the breaker is open with
  the count at the threshold or above, or it was closed, is still closed, and the count,
  one higher, is still below the threshold.
\<close>

lemma one_failing_call:
  assumes "is_failure c"
    and "state self = CLOSED \<or>
         (state self = OPEN \<and> failure_threshold self \<le> failure_count self)"
  shows "failure_threshold (run_calls sar rc self [c]) = failure_threshold self \<and>
    ((state (run_calls sar rc self [c]) = OPEN \<and>
      failure_threshold self \<le> failure_count (run_calls sar rc self [c])) \<or>
     (state (run_calls sar rc self [c]) = CLOSED \<and> state self = CLOSED \<and>
      failure_count (run_calls sar rc self [c]) = failure_count self + 1 \<and>
      failure_count (run_calls sar rc self [c]) < failure_threshold self))"
proof -
  obtain tg tf e where c: "c = (tg, tf, FuncRaises e)"
    using assms(1) by (cases c rule: is_failure.cases) simp_all
  show ?thesis
    using assms(2) unfolding c by (auto simp: call_def record_failure_def Let_def)
qed

text \<open>The same over a sequence of such calls that is not empty.\<close>

lemma failing_calls:
  assumes "list_all is_failure cs" and "cs \<noteq> []"
    and "state self = CLOSED \<or>
         (state self = OPEN \<and> failure_threshold self \<le> failure_count self)"
  shows "failure_threshold (run_calls sar rc self cs) = failure_threshold self \<and>
    ((state (run_calls sar rc self cs) = OPEN \<and>
      failure_threshold self \<le> failure_count (run_calls sar rc self cs)) \<or>
     (state (run_calls sar rc self cs) = CLOSED \<and> state self = CLOSED \<and>
      failure_count (run_calls sar rc self cs) = failure_count self + int (length cs) \<and>
      failure_count (run_calls sar rc self cs) < failure_threshold self))"
  using assms
proof (induction cs arbitrary: self)
  case Nil
  then show ?case by simp
next
  case (Cons c cs)
  let ?s1 = "run_calls sar rc self [c]"
  have step: "run_calls sar rc self (c # cs) = run_calls sar rc ?s1 cs"
    by (cases c) simp
  from Cons.prems have f: "is_failure c" and fs: "list_all is_failure cs"
    by simp_all
  note one = one_failing_call [OF f Cons.prems(3), of sar rc]
  show ?case
  proof (cases "cs = []")
    case True
    with one show ?thesis by simp
  next
    case False
    from one have pre: "state ?s1 = CLOSED \<or>
        (state ?s1 = OPEN \<and> failure_threshold ?s1 \<le> failure_count ?s1)"
      by auto
    from Cons.IH [OF fs False pre] one show ?thesis
      unfolding step by auto
  qed
qed

text \<open>
  Calls on an open breaker, each made while \<open>should_attempt_reset\<close> is false: none
  invokes the function and the breaker is left as it was.
\<close>

lemma rejected_while_open:
  assumes "state b = OPEN" and "list_all (\<lambda>c. \<not> sar b (fst c)) cs"
  shows "invocations sar rc b cs = 0 \<and> run_calls sar rc b cs = b"
  using assms
proof (induction cs)
  case Nil
  then show ?case by simp
next
  case (Cons c cs)
  obtain tg tf f where c: "c = (tg, tf, f)"
    by (cases c)
  from Cons show ?case
    unfolding c by (simp add: call_def)
qed

text \<open>
  Claim C5. A breaker that is closed, with a failure count that is not negative and a
  failure threshold of at least one, is open after \<open>failure_threshold\<close> calls in a row
  whose function raises. A call on an open breaker, made while \<open>should_attempt_reset\<close>
  is false, raises \<open>CircuitOpenError\<close>, does not invoke the function and leaves the
  breaker as it was; so over any sequence of such calls the function is never invoked.
\<close>

theorem breaker_opens_and_rejects:
  "(state self = CLOSED \<and> 0 \<le> failure_count self \<and> 0 < failure_threshold self \<and>
    length cs = nat (failure_threshold self) \<and> list_all is_failure cs \<longrightarrow>
      state (run_calls sar rc self cs) = OPEN) \<and>
   (state b = OPEN \<and> \<not> sar b t_gate \<longrightarrow>
      call sar rc b t_gate t_fail func =
        \<lparr>result = CircuitOpenError (name b), invoked = False, breaker = b\<rparr>) \<and>
   (state b = OPEN \<and> list_all (\<lambda>c. \<not> sar b (fst c)) ds \<longrightarrow>
      invocations sar rc b ds = 0 \<and> run_calls sar rc b ds = b)"
proof -
  have p1: "state (run_calls sar rc self cs) = OPEN"
    if h: "state self = CLOSED" "0 \<le> failure_count self" "0 < failure_threshold self"
      "length cs = nat (failure_threshold self)" "list_all is_failure cs"
  proof -
    from h(3,4) have ne: "cs \<noteq> []"
      by auto
    from h(3,4) have len: "int (length cs) = failure_threshold self"
      by simp
    from failing_calls [OF h(5) ne, of self sar rc] h(1) h(2) len show ?thesis
      by auto
  qed
  have p2: "call sar rc b t_gate t_fail func =
        \<lparr>result = CircuitOpenError (name b), invoked = False, breaker = b\<rparr>"
    if "state b = OPEN" "\<not> sar b t_gate"
    using that by (simp add: call_def)
  from p1 p2 rejected_while_open [of b sar ds rc] show ?thesis
    by blast
qed

theorem breaker_opens_and_rejects_witness:
  "state alchemy_circuit = CLOSED \<and> 0 \<le> failure_count alchemy_circuit \<and>
   0 < failure_threshold alchemy_circuit \<and>
   length (map fails_at [0, 1, 2, 3, 4]) = nat (failure_threshold alchemy_circuit) \<and>
   list_all is_failure (map fails_at [0, 1, 2, 3, 4]) \<and>
   state (run_calls should_attempt_reset reset_counts alchemy_circuit
            (map fails_at [0, 1, 2, 3, 4])) = OPEN \<and>
   state opened_alchemy_circuit = OPEN \<and>
   \<not> should_attempt_reset opened_alchemy_circuit 63 \<and>
   call should_attempt_reset reset_counts opened_alchemy_circuit 63 63 (FuncReturns ()) =
     \<lparr>result = (CircuitOpenError ''alchemy'' :: (unit, string) call_result), invoked = False,
      breaker = opened_alchemy_circuit\<rparr> \<and>
   list_all (\<lambda>c. \<not> should_attempt_reset opened_alchemy_circuit (fst c))
     [succeeds_at 5, fails_at 30, succeeds_at 63] \<and>
   invocations should_attempt_reset reset_counts opened_alchemy_circuit
     [succeeds_at 5, fails_at 30, succeeds_at 63] = 0"
proof -
  have h1: "state alchemy_circuit = CLOSED \<and> 0 \<le> failure_count alchemy_circuit \<and>
    0 < failure_threshold alchemy_circuit \<and>
    length (map fails_at [0, 1, 2, 3, 4]) = nat (failure_threshold alchemy_circuit) \<and>
    list_all is_failure (map fails_at [0, 1, 2, 3, 4])"
    by (simp add: alchemy_circuit_def init_breaker_def fails_at_def)
  have h2: "state opened_alchemy_circuit = OPEN \<and>
    \<not> should_attempt_reset opened_alchemy_circuit 63"
    by (simp add: opened_alchemy_circuit_def alchemy_circuit_def init_breaker_def
        should_attempt_reset_def)
  have h3: "state opened_alchemy_circuit = OPEN \<and>
    list_all (\<lambda>c. \<not> should_attempt_reset opened_alchemy_circuit (fst c))
     [succeeds_at 5, fails_at 30, succeeds_at 63]"
    by (simp add: opened_alchemy_circuit_def alchemy_circuit_def init_breaker_def
        should_attempt_reset_def succeeds_at_def fails_at_def)
  have n: "name opened_alchemy_circuit = ''alchemy''"
    by (simp add: opened_alchemy_circuit_def alchemy_circuit_def init_breaker_def)
  note inst = breaker_opens_and_rejects
      [of alchemy_circuit "map fails_at [0, 1, 2, 3, 4]" should_attempt_reset
          reset_counts opened_alchemy_circuit 63 63 "FuncReturns ()"
          "[succeeds_at 5, fails_at 30, succeeds_at 63]"]
  from inst h1
  have r1: "state (run_calls should_attempt_reset reset_counts alchemy_circuit
            (map fails_at [0, 1, 2, 3, 4])) = OPEN"
    by blast
  from inst h2
  have r2: "call should_attempt_reset reset_counts opened_alchemy_circuit 63 63
              (FuncReturns ()) =
     \<lparr>result = (CircuitOpenError (name opened_alchemy_circuit) :: (unit, string) call_result),
      invoked = False, breaker = opened_alchemy_circuit\<rparr>"
    by blast
  from inst h3
  have r3: "invocations should_attempt_reset reset_counts opened_alchemy_circuit
     [succeeds_at 5, fails_at 30, succeeds_at 63] = 0"
    by blast
  from h1 h2 h3 r1 r2 [unfolded n] r3 show ?thesis
    by blast
qed

text \<open>
  The five failures of the witness above do lead to the breaker named
  \<open>opened_alchemy_circuit\<close>.
\<close>

lemma alchemy_five_failures:
  "run_calls should_attempt_reset reset_counts alchemy_circuit
     (map fails_at [0, 1, 2, 3, 4]) = opened_alchemy_circuit"
  by (simp add: opened_alchemy_circuit_def alchemy_circuit_def init_breaker_def
      fails_at_def call_def record_failure_def Let_def)

text \<open>
  Claim C6, on the breaker of the usage example. The claim has successes that are
  separated by a failure and a later half-open phase not count toward closing. After five
  failures the breaker is open. Two probes succeed (clock readings 64 and 65), the next
  call fails (66): the breaker is open again and \<open>success_count\<close> is still 2. In the next
  half-open phase a single success (126) closes it, although \<open>success_threshold\<close> is 3.
\<close>

theorem stale_successes_close_the_breaker:
  "run_calls should_attempt_reset reset_counts alchemy_circuit
      (map fails_at [0, 1, 2, 3, 4] @ [succeeds_at 64, succeeds_at 65, fails_at 66]) =
     alchemy_circuit\<lparr>state := OPEN, failure_count := 6, success_count := 2,
                      last_failure_time := Some 66\<rparr> \<and>
   state (run_calls should_attempt_reset reset_counts alchemy_circuit
      (map fails_at [0, 1, 2, 3, 4] @
       [succeeds_at 64, succeeds_at 65, fails_at 66, succeeds_at 126])) = CLOSED \<and>
   success_threshold alchemy_circuit = 3"
  by (simp add: alchemy_circuit_def init_breaker_def fails_at_def succeeds_at_def call_def
      record_failure_def record_success_def should_attempt_reset_def reset_counts_def Let_def)

end

